theory Spec2Isabelle
  imports Main "HOL-Library.Word"
begin

section \<open>JavaScript values and the object store\<close>

text \<open>
  The transactions service (\<^verbatim>\<open>services/transactions.js\<close>) forwards JavaScript values to
  the API client and reads one property of what the client answers. Objects are passed by
  reference, so a value is either a primitive or the address of an object in a store.
  A number is carried as the bit pattern of its IEEE-754 double; the service never
  computes on one. An object is the list of its own properties, in insertion order
  (an array is the object of its indices).
\<close>

type_synonym addr = nat

datatype jsval =
    JUndefined
  | JNull
  | JBool bool
  | JNum "64 word"
  | JStr string
  | JRef addr

type_synonym obj = "(string \<times> jsval) list"

record heap =
  objs :: "addr \<Rightarrow> obj"
  next_addr :: addr

text \<open>
  The objects in use are those below \<open>next_addr\<close>. An object literal allocates a fresh
  object: the store hands out the address \<open>next_addr\<close> and moves it on. No address
  handed out before is written.
\<close>

definition alloc :: "heap \<Rightarrow> obj \<Rightarrow> jsval \<times> heap" where
  "alloc h ob =
     (JRef (next_addr h),
      h\<lparr>objs := (objs h)(next_addr h := ob), next_addr := Suc (next_addr h)\<rparr>)"

text \<open>
  What a JavaScript program can throw, or a promise be rejected with: any value
  (\<open>Thrown\<close>), and the engine's own TypeError for reading a property of
  \<^verbatim>\<open>undefined\<close> or \<^verbatim>\<open>null\<close>.
\<close>

datatype js_error = Thrown jsval | TypeError

type_synonym outcome = "js_error + jsval"

definition lookup_prop :: "obj \<Rightarrow> string \<Rightarrow> jsval" where
  "lookup_prop ob p = (case map_of ob p of None \<Rightarrow> JUndefined | Some v \<Rightarrow> v)"

text \<open>
  The expression \<^verbatim>\<open>res.data\<close>. Reading a property of \<^verbatim>\<open>undefined\<close> or
  \<^verbatim>\<open>null\<close> throws; an object gives the property, or \<^verbatim>\<open>undefined\<close> when it has none
  of that name; a boolean, number or string has no property \<^verbatim>\<open>data\<close>.
\<close>

fun read_data :: "heap \<Rightarrow> jsval \<Rightarrow> outcome" where
  "read_data h JUndefined = Inl TypeError"
| "read_data h JNull = Inl TypeError"
| "read_data h (JRef a) = Inr (lookup_prop (objs h a) ''data'')"
| "read_data h (JBool b) = Inr JUndefined"
| "read_data h (JNum n) = Inr JUndefined"
| "read_data h (JStr s) = Inr JUndefined"

section \<open>The API client\<close>

text \<open>
  The module \<^verbatim>\<open>./api\<close> is imported by the service and is a parameter here. A call
  of \<^verbatim>\<open>api.get(url, config)\<close> or \<^verbatim>\<open>api.post(url, body)\<close>, once awaited, has either been
  rejected with an error or resolved with a value. By then the store may hold new
  objects (the response) and objects may have been written, by the client or by whatever
  else ran while the call was pending, and the state \<open>'c\<close> of what is behind the client
  (the network, the server) may have changed.
\<close>

datatype api_call = Get string jsval | Post string jsval

type_synonym 'c api = "api_call \<Rightarrow> heap \<Rightarrow> 'c \<Rightarrow> outcome \<times> heap \<times> 'c"

text \<open>
  One exchange with the client: the call, the store the client was handed, what the
  awaited call settled to, and the store at that moment.
\<close>

record exchange =
  call :: api_call
  sent :: heap
  answer :: outcome
  received :: heap

text \<open>
  The world a service function runs in: the store, the state behind the client, and the
  trace of the exchanges with the client so far (so that what a request carried, and
  what came back, can be read off afterwards).
\<close>

record 'c world =
  store :: heap
  remote :: 'c
  trace :: "exchange list"

definition invoke :: "'c api \<Rightarrow> api_call \<Rightarrow> 'c world \<Rightarrow> outcome \<times> 'c world" where
  "invoke api c w =
     (case api c (store w) (remote w) of
        (r, h', s') \<Rightarrow>
          (r, \<lparr>store = h', remote = s',
               trace = trace w @ [\<lparr>call = c, sent = store w, answer = r, received = h'\<rparr>]\<rparr>))"

definition api_get :: "'c api \<Rightarrow> string \<Rightarrow> jsval \<Rightarrow> 'c world \<Rightarrow> outcome \<times> 'c world" where
  "api_get api url config = invoke api (Get url config)"

definition api_post :: "'c api \<Rightarrow> string \<Rightarrow> jsval \<Rightarrow> 'c world \<Rightarrow> outcome \<times> 'c world" where
  "api_post api url body = invoke api (Post url body)"

section \<open>The transactions service\<close>

text \<open>
  \<^verbatim>\<open>
  export const getTransactions = async (filters = {}) => {
      const res = await api.get("/transactions", {params: filters});
      return res.data;
  }
  \<close>
  The default \<^verbatim>\<open>{}\<close> is taken when the argument is \<^verbatim>\<open>undefined\<close> (also when it is
  left out). The result is the outcome of the promise the async function returns:
  \<open>Inl\<close> when it is rejected, \<open>Inr\<close> when it is resolved.
\<close>

definition getTransactions :: "'c api \<Rightarrow> jsval \<Rightarrow> 'c world \<Rightarrow> outcome \<times> 'c world" where
  "getTransactions api arg w =
     (let (filters, h1) = (if arg = JUndefined then alloc (store w) [] else (arg, store w));
          (config, h2) = alloc h1 [(''params'', filters)];
          (r, w') = api_get api ''/transactions'' config (w\<lparr>store := h2\<rparr>)
      in case r of
           Inl e \<Rightarrow> (Inl e, w')
         | Inr res \<Rightarrow> (read_data (store w') res, w'))"

text \<open>
  \<^verbatim>\<open>
  export const createTransaction = async (data) => {
      const res = await api.post("/transactions", data);
      return res.data;
  }
  \<close>
\<close>

definition createTransaction :: "'c api \<Rightarrow> jsval \<Rightarrow> 'c world \<Rightarrow> outcome \<times> 'c world" where
  "createTransaction api data w =
     (let (r, w') = api_post api ''/transactions'' data w
      in case r of
           Inl e \<Rightarrow> (Inl e, w')
         | Inr res \<Rightarrow> (read_data (store w') res, w'))"

text \<open>
  The \<open>params\<close> entry of a request's config object is what the service hands the
  client as query parameters.
\<close>

definition params_of :: "heap \<Rightarrow> jsval \<Rightarrow> jsval" where
  "params_of h config =
     (case config of JRef c \<Rightarrow> lookup_prop (objs h c) ''params'' | _ \<Rightarrow> JUndefined)"

text \<open>
  Two settled calls agree on the data of their responses when both resolved with an
  object and the two objects have the same \<open>data\<close> property, whatever else they hold,
  or when neither did and they settled to the same error or value.
\<close>

definition agree_on_data :: "outcome \<Rightarrow> heap \<Rightarrow> outcome \<Rightarrow> heap \<Rightarrow> bool" where
  "agree_on_data r h r' h' =
     (case (r, r') of
        (Inr (JRef a), Inr (JRef a')) \<Rightarrow>
          lookup_prop (objs h a) ''data'' = lookup_prop (objs h' a') ''data''
      | _ \<Rightarrow> r = r')"

subsection \<open>Clients to run the service against\<close>

text \<open>
  \<open>stub_api status\<close> resolves every call with a fresh response object: a GET with the
  body \<^verbatim>\<open>"[]"\<close>, a POST with the request's body echoed, both with the given status;
  it counts the requests it served. \<open>failing_api err\<close> rejects every call with
  \<open>err\<close>. \<open>writing_api\<close> is a client that completes what it is given, as a request
  interceptor may: it adds a \<^verbatim>\<open>page\<close> entry to the \<open>params\<close> object of a GET and
  an \<^verbatim>\<open>id\<close> entry to the body of a POST, in place, and resolves with a fresh
  response object.
\<close>

definition stub_api :: "jsval \<Rightarrow> nat api" where
  "stub_api status c h n =
     (case c of
        Get url config \<Rightarrow>
          (let (res, h') = alloc h [(''data'', JStr ''[]''), (''status'', status)]
           in (Inr res, h', Suc n))
      | Post url body \<Rightarrow>
          (let (res, h') = alloc h [(''data'', body), (''status'', status)]
           in (Inr res, h', Suc n)))"

definition failing_api :: "jsval \<Rightarrow> nat api" where
  "failing_api err c h n = (Inl (Thrown err), h, n)"

definition append_prop :: "heap \<Rightarrow> addr \<Rightarrow> string \<Rightarrow> jsval \<Rightarrow> heap" where
  "append_prop h a k v = h\<lparr>objs := (objs h)(a := objs h a @ [(k, v)])\<rparr>"

definition writing_api :: "nat api" where
  "writing_api c h n =
     (case c of
        Get url config \<Rightarrow>
          (case params_of h config of
             JRef p \<Rightarrow>
               (let (res, h') =
                      alloc (append_prop h p ''page'' (JNum 0x3FF0000000000000))
                        [(''data'', JStr ''[]'')]
                in (Inr res, h', Suc n))
           | _ \<Rightarrow> (Inl (Thrown (JStr ''no params'')), h, n))
      | Post url body \<Rightarrow>
          (case body of
             JRef b \<Rightarrow>
               (let (res, h') =
                      alloc (append_prop h b ''id'' (JNum 0x3FF0000000000000))
                        [(''data'', body)]
                in (Inr res, h', Suc n))
           | _ \<Rightarrow> (Inl (Thrown (JStr ''no body'')), h, n)))"

text \<open>
  A store holding the filters object \<^verbatim>\<open>{category: "food"}\<close> at address 0 and the
  payload \<^verbatim>\<open>{amount: 12.5, category: "food"}\<close> at address 1.
\<close>

definition store0 :: heap where
  "store0 =
     \<lparr>objs = (\<lambda>_. [])(0 := [(''category'', JStr ''food'')],
                         1 := [(''amount'', JNum 0x4029000000000000),
                               (''category'', JStr ''food'')]),
      next_addr = 2\<rparr>"

definition world0 :: "nat world" where
  "world0 = \<lparr>store = store0, remote = 0, trace = []\<rparr>"

section \<open>The component tree\<close>

text \<open>
  A JSX expression is an element: its type (a host tag such as \<^verbatim>\<open>div\<close>, or a
  component, named as the source names it), its props and its children. A prop holds a
  string, an imported asset, an element, or the function \<^verbatim>\<open>NavLink\<close> calls with
  \<^verbatim>\<open>isActive\<close> to get a class name.
\<close>

datatype tag = Host string | Comp string

datatype prop_val =
    PStr string
  | PAsset string
  | PClassFn "bool \<Rightarrow> string"
  | PElem jsx
and jsx =
    Elem tag "(string \<times> prop_val) list" "jsx list"
  | Text string

text \<open>\<^verbatim>\<open>components/Navbar.jsx\<close>: the function takes no props and reads no state.\<close>

definition nav_class :: "bool \<Rightarrow> string" where
  "nav_class isActive = (if isActive then ''nav-link active'' else ''nav-link'')"

definition Navbar :: jsx where
  "Navbar =
     Elem (Host ''nav'') [(''className'', PStr ''navbar'')]
       [Elem (Host ''div'') [(''className'', PStr ''navbar-left'')]
          [Elem (Host ''img'')
             [(''src'', PAsset ''../assets/logo.png''), (''alt'', PStr ''App logo''),
              (''className'', PStr ''navbar-logo-img'')] [],
           Elem (Host ''h1'') [(''className'', PStr ''navbar-logo-text'')]
             [Text ''MyFinanceApp'']],
        Elem (Host ''div'') [(''className'', PStr ''navbar-links'')]
          [Elem (Comp ''NavLink'') [(''to'', PStr ''/''), (''className'', PClassFn nav_class)]
             [Text ''Home''],
           Elem (Comp ''NavLink'')
             [(''to'', PStr ''/transactions''), (''className'', PClassFn nav_class)]
             [Text ''Transactions''],
           Elem (Comp ''NavLink'')
             [(''to'', PStr ''/categories''), (''className'', PClassFn nav_class)]
             [Text ''Categories'']]]"

text \<open>The App root: the function takes no props and reads no state.\<close>

definition App :: jsx where
  "App =
     Elem (Comp ''Router'') []
       [Elem (Host ''div'') [(''className'', PStr ''min-h-screen bg-gray-50'')]
          [Elem (Comp ''Navbar'') [] [],
           Elem (Host ''div'') [(''className'', PStr ''p-6'')]
             [Elem (Comp ''Routes'') []
                [Elem (Comp ''Route'')
                   [(''path'', PStr ''/''), (''element'', PElem (Elem (Comp ''Home'') [] []))] [],
                 Elem (Comp ''Route'')
                   [(''path'', PStr ''/transactions''),
                    (''element'', PElem (Elem (Comp ''Transactions'') [] []))] [],
                 Elem (Comp ''Route'')
                   [(''path'', PStr ''/categories''),
                    (''element'', PElem (Elem (Comp ''Categories'') [] []))] []]]]]"

subsection \<open>Reading a tree\<close>

fun tag_of :: "jsx \<Rightarrow> tag option" where
  "tag_of (Elem t ps cs) = Some t"
| "tag_of (Text s) = None"

text \<open>All elements of a tree, parents before children, in source order.\<close>

fun elements :: "jsx \<Rightarrow> jsx list" where
  "elements (Elem t ps cs) = Elem t ps cs # concat (map elements cs)"
| "elements (Text s) = []"

text \<open>
  The elements that are rendered whatever the location: \<^verbatim>\<open>Routes\<close> renders the
  element of a matching \<^verbatim>\<open>Route\<close> only, so the walk does not go below it.
\<close>

fun always_rendered :: "jsx \<Rightarrow> jsx list" where
  "always_rendered (Elem t ps cs) =
     Elem t ps cs # (if t = Comp ''Routes'' then [] else concat (map always_rendered cs))"
| "always_rendered (Text s) = []"

text \<open>A \<^verbatim>\<open>Route\<close> element declares a path and the type of the element shown there.\<close>

fun route_entry :: "jsx \<Rightarrow> (string \<times> tag) option" where
  "route_entry (Elem t ps cs) =
     (if t = Comp ''Route'' then
        (case (map_of ps ''path'', map_of ps ''element'') of
           (Some (PStr p), Some (PElem (Elem page _ _))) \<Rightarrow> Some (p, page)
         | _ \<Rightarrow> None)
      else None)"
| "route_entry (Text s) = None"

definition routes :: "jsx \<Rightarrow> (string \<times> tag) list" where
  "routes t = List.map_filter route_entry (elements t)"

text \<open>A \<^verbatim>\<open>NavLink\<close> element points at the path in its \<^verbatim>\<open>to\<close> prop.\<close>

fun nav_target :: "jsx \<Rightarrow> string option" where
  "nav_target (Elem t ps cs) =
     (if t = Comp ''NavLink'' then
        (case map_of ps ''to'' of Some (PStr p) \<Rightarrow> Some p | _ \<Rightarrow> None)
      else None)"
| "nav_target (Text s) = None"

definition nav_targets :: "jsx \<Rightarrow> string list" where
  "nav_targets t = List.map_filter nav_target (elements t)"

text \<open>
  Rendering \<^verbatim>\<open><Navbar />\<close> calls the component, which returns its tree; the other
  components are the router library's or pages, and stay as they are.
\<close>

fun mount :: "jsx \<Rightarrow> jsx" where
  "mount (Elem t ps cs) =
     (if t = Comp ''Navbar'' then Navbar else Elem t ps (map mount cs))"
| "mount (Text s) = Text s"

section \<open>Properties of the service\<close>

subsection \<open>What one run does\<close>

lemma invoke_eq:
  "api c (store w) (remote w) = (r, h', s') \<Longrightarrow>
   invoke api c w =
     (r, \<lparr>store = h', remote = s',
          trace = trace w @ [\<lparr>call = c, sent = store w, answer = r, received = h'\<rparr>]\<rparr>)"
  by (simp add: invoke_def)

lemma getTransactions_eq:
  assumes "(if arg = JUndefined then alloc (store w) [] else (arg, store w)) = (filters, h1)"
    and "alloc h1 [(''params'', filters)] = (config, hreq)"
    and "api (Get ''/transactions'' config) hreq (remote w) = (r, h', s')"
  shows "getTransactions api arg w =
     (case r of Inl e \<Rightarrow> Inl e | Inr res \<Rightarrow> read_data h' res,
      \<lparr>store = h', remote = s',
       trace = trace w @
         [\<lparr>call = Get ''/transactions'' config, sent = hreq, answer = r, received = h'\<rparr>]\<rparr>)"
proof -
  have "api_get api ''/transactions'' config (w\<lparr>store := hreq\<rparr>) =
     (r, \<lparr>store = h', remote = s',
          trace = trace w @
            [\<lparr>call = Get ''/transactions'' config, sent = hreq, answer = r, received = h'\<rparr>]\<rparr>)"
    unfolding api_get_def using assms(3) by (simp add: invoke_eq)
  then show ?thesis
    using assms(1,2) by (simp add: getTransactions_def split: sum.split)
qed

lemma createTransaction_eq:
  assumes "api (Post ''/transactions'' data) (store w) (remote w) = (r, h', s')"
  shows "createTransaction api data w =
     (case r of Inl e \<Rightarrow> Inl e | Inr res \<Rightarrow> read_data h' res,
      \<lparr>store = h', remote = s',
       trace = trace w @
         [\<lparr>call = Post ''/transactions'' data, sent = store w, answer = r, received = h'\<rparr>]\<rparr>)"
proof -
  have "api_post api ''/transactions'' data w =
     (r, \<lparr>store = h', remote = s',
          trace = trace w @
            [\<lparr>call = Post ''/transactions'' data, sent = store w, answer = r, received = h'\<rparr>]\<rparr>)"
    unfolding api_post_def using assms by (rule invoke_eq)
  then show ?thesis
    by (simp add: createTransaction_def split: sum.split)
qed

lemma alloc_keeps:
  "alloc h ob = (v, h') \<Longrightarrow> a < next_addr h \<Longrightarrow> objs h' a = objs h a \<and> a < next_addr h'"
  by (auto simp: alloc_def)

lemma agree_on_data_read:
  assumes "agree_on_data r h r' h'"
  shows "(case r of Inl e \<Rightarrow> Inl e | Inr res \<Rightarrow> read_data h res)
       = (case r' of Inl e \<Rightarrow> Inl e | Inr res \<Rightarrow> read_data h' res)"
proof (cases r)
  case (Inl e)
  with assms show ?thesis
    by (auto simp: agree_on_data_def split: sum.splits jsval.splits)
next
  case (Inr v)
  with assms show ?thesis
    by (cases v; cases r') (auto simp: agree_on_data_def split: jsval.splits)
qed

subsection \<open>Requests and results\<close>

text \<open>
  Claim C1. Called with a filters object \<open>f\<close> of the store, \<open>getTransactions\<close> makes
  exactly one call to the client, a GET of \<^verbatim>\<open>/transactions\<close> whose config object has
  the filters, by reference and with their content as given, under \<open>params\<close>; and when
  the call resolves with a response object, the result is that object's \<open>data\<close>
  property as it stands. In the witness the filters are \<^verbatim>\<open>{category: "food"}\<close>.
\<close>

theorem getTransactions_sends_filters_returns_data:
  assumes "f < next_addr (store w)"
    and "alloc (store w) [(''params'', JRef f)] = (config, hreq)"
    and "api (Get ''/transactions'' config) hreq (remote w) = (r, h', s')"
  shows "snd (getTransactions api (JRef f) w) =
           \<lparr>store = h', remote = s',
            trace = trace w @
              [\<lparr>call = Get ''/transactions'' config, sent = hreq, answer = r, received = h'\<rparr>]\<rparr>
         \<and> params_of hreq config = JRef f
         \<and> objs hreq f = objs (store w) f
         \<and> (\<forall>a. r = Inr (JRef a) \<longrightarrow>
               fst (getTransactions api (JRef f) w) = Inr (lookup_prop (objs h' a) ''data''))"
proof -
  have run: "getTransactions api (JRef f) w =
     (case r of Inl e \<Rightarrow> Inl e | Inr res \<Rightarrow> read_data h' res,
      \<lparr>store = h', remote = s',
       trace = trace w @
         [\<lparr>call = Get ''/transactions'' config, sent = hreq, answer = r, received = h'\<rparr>]\<rparr>)"
    using assms(2,3) by (intro getTransactions_eq [where filters = "JRef f" and ?h1.0 = "store w"]) simp_all
  have cfg: "config = JRef (next_addr (store w))"
    and hreq: "hreq = (store w)\<lparr>objs := (objs (store w))(next_addr (store w) := [(''params'', JRef f)]),
                               next_addr := Suc (next_addr (store w))\<rparr>"
    using assms(2) by (auto simp: alloc_def)
  have "params_of hreq config = JRef f"
    by (simp add: cfg hreq params_of_def lookup_prop_def)
  moreover have "objs hreq f = objs (store w) f"
    using assms(1) by (simp add: hreq)
  ultimately show ?thesis
    by (simp add: run)
qed

theorem getTransactions_sends_filters_returns_data_witness:
  "params_of (snd (alloc store0 [(''params'', JRef 0)])) (JRef 2) = JRef 0
   \<and> objs (snd (alloc store0 [(''params'', JRef 0)])) 0 = [(''category'', JStr ''food'')]
   \<and> map call (trace (snd (getTransactions (stub_api (JNum 0x4069000000000000)) (JRef 0) world0)))
       = [Get ''/transactions'' (JRef 2)]
   \<and> fst (getTransactions (stub_api (JNum 0x4069000000000000)) (JRef 0) world0) = Inr (JStr ''[]'')"
proof -
  let ?api = "stub_api (JNum 0x4069000000000000)"
  let ?hreq = "snd (alloc store0 [(''params'', JRef 0)])"
  let ?h' = "snd (alloc ?hreq [(''data'', JStr ''[]''), (''status'', JNum 0x4069000000000000)])"
  have h1: "0 < next_addr (store world0)"
    by (simp add: world0_def store0_def)
  have h2: "alloc (store world0) [(''params'', JRef 0)] = (JRef 2, ?hreq)"
    by (simp add: alloc_def world0_def store0_def)
  have h3: "?api (Get ''/transactions'' (JRef 2)) ?hreq (remote world0) = (Inr (JRef 3), ?h', 1)"
    by (simp add: stub_api_def alloc_def world0_def store0_def)
  have data: "lookup_prop (objs ?h' 3) ''data'' = JStr ''[]''"
    by (simp add: alloc_def store0_def lookup_prop_def)
  from getTransactions_sends_filters_returns_data [where api = ?api, OF h1 h2 h3] data
  show ?thesis
    by (simp add: world0_def store0_def)
qed

text \<open>
  Claim C2. \<open>createTransaction\<close> makes exactly one call to the client, a POST of
  \<^verbatim>\<open>/transactions\<close> whose body is the given payload itself, in the store as the caller
  left it; and when the call resolves with a response object, the result is that
  object's \<open>data\<close> property as it stands.
\<close>

theorem createTransaction_sends_body_returns_data:
  assumes "api (Post ''/transactions'' data) (store w) (remote w) = (r, h', s')"
  shows "snd (createTransaction api data w) =
           \<lparr>store = h', remote = s',
            trace = trace w @
              [\<lparr>call = Post ''/transactions'' data, sent = store w, answer = r, received = h'\<rparr>]\<rparr>
         \<and> (\<forall>a. r = Inr (JRef a) \<longrightarrow>
               fst (createTransaction api data w) = Inr (lookup_prop (objs h' a) ''data''))"
  by (simp add: createTransaction_eq [where api = api, OF assms])

theorem createTransaction_sends_body_returns_data_witness:
  "map call (trace (snd (createTransaction (stub_api (JNum 0x4069200000000000)) (JRef 1) world0)))
     = [Post ''/transactions'' (JRef 1)]
   \<and> map sent (trace (snd (createTransaction (stub_api (JNum 0x4069200000000000)) (JRef 1) world0)))
     = [store0]
   \<and> fst (createTransaction (stub_api (JNum 0x4069200000000000)) (JRef 1) world0) = Inr (JRef 1)"
proof -
  let ?api = "stub_api (JNum 0x4069200000000000)"
  let ?h' = "snd (alloc store0 [(''data'', JRef 1), (''status'', JNum 0x4069200000000000)])"
  have h: "?api (Post ''/transactions'' (JRef 1)) (store world0) (remote world0)
             = (Inr (JRef 2), ?h', 1)"
    by (simp add: stub_api_def alloc_def world0_def store0_def)
  have data: "lookup_prop (objs ?h' 2) ''data'' = JRef 1"
    by (simp add: alloc_def store0_def lookup_prop_def)
  from createTransaction_sends_body_returns_data [where api = ?api, OF h] data
  show ?thesis
    by (simp add: world0_def)
qed

text \<open>
  Claim C3. Called without filters, \<open>getTransactions\<close> takes the default, a fresh
  object with no property, and hands the client one GET of \<^verbatim>\<open>/transactions\<close> whose
  config has that object under \<open>params\<close>: the request carries no query parameter. The
  world after the run is what the client's answer to that request left.
\<close>

theorem getTransactions_default_sends_empty_params:
  assumes "alloc (store w) [] = (filters, h1)"
    and "alloc h1 [(''params'', filters)] = (config, hreq)"
    and "api (Get ''/transactions'' config) hreq (remote w) = (r, h', s')"
  shows "snd (getTransactions api JUndefined w) =
           \<lparr>store = h', remote = s',
            trace = trace w @
              [\<lparr>call = Get ''/transactions'' config, sent = hreq, answer = r, received = h'\<rparr>]\<rparr>
         \<and> filters = JRef (next_addr (store w))
         \<and> params_of hreq config = filters
         \<and> objs hreq (next_addr (store w)) = []"
proof -
  have run: "getTransactions api JUndefined w =
     (case r of Inl e \<Rightarrow> Inl e | Inr res \<Rightarrow> read_data h' res,
      \<lparr>store = h', remote = s',
       trace = trace w @
         [\<lparr>call = Get ''/transactions'' config, sent = hreq, answer = r, received = h'\<rparr>]\<rparr>)"
    using assms
    by (intro getTransactions_eq [where api = api and filters = filters and ?h1.0 = h1]) simp_all
  have "filters = JRef (next_addr (store w))"
    and "params_of hreq config = filters"
    and "objs hreq (next_addr (store w)) = []"
    using assms(1,2) by (auto simp: alloc_def params_of_def lookup_prop_def)
  then show ?thesis
    by (simp add: run)
qed

theorem getTransactions_default_sends_empty_params_witness:
  "map call (trace (snd (getTransactions (stub_api (JNum 0x4069000000000000)) JUndefined world0)))
     = [Get ''/transactions'' (JRef 3)]
   \<and> params_of (snd (alloc (snd (alloc store0 [])) [(''params'', JRef 2)])) (JRef 3) = JRef 2
   \<and> objs (snd (alloc (snd (alloc store0 [])) [(''params'', JRef 2)])) 2 = []
   \<and> remote (snd (getTransactions (stub_api (JNum 0x4069000000000000)) JUndefined world0)) = 1"
proof -
  let ?api = "stub_api (JNum 0x4069000000000000)"
  let ?h1 = "snd (alloc store0 [])"
  let ?hreq = "snd (alloc ?h1 [(''params'', JRef 2)])"
  let ?h' = "snd (alloc ?hreq [(''data'', JStr ''[]''), (''status'', JNum 0x4069000000000000)])"
  have a1: "alloc (store world0) [] = (JRef 2, ?h1)"
    by (simp add: alloc_def world0_def store0_def)
  have a2: "alloc ?h1 [(''params'', JRef 2)] = (JRef 3, ?hreq)"
    by (simp add: alloc_def store0_def)
  have a3: "?api (Get ''/transactions'' (JRef 3)) ?hreq (remote world0) = (Inr (JRef 4), ?h', 1)"
    by (simp add: stub_api_def alloc_def world0_def store0_def)
  from getTransactions_default_sends_empty_params [where api = ?api, OF a1 a2 a3]
  show ?thesis
    by (simp add: world0_def store0_def)
qed

subsection \<open>Failures and effects\<close>

text \<open>
  Claim C4. When the client rejects the call that a service function makes, with whatever
  error, the function is rejected with that same error, after that one call: nothing is
  caught, retried, replaced by a value or changed.
\<close>

theorem client_failure_propagates:
  assumes "(if arg = JUndefined then alloc (store w) [] else (arg, store w)) = (filters, h1)"
    and "alloc h1 [(''params'', filters)] = (config, hreq)"
  shows "(api (Get ''/transactions'' config) hreq (remote w) = (Inl e, h', s') \<longrightarrow>
            getTransactions api arg w =
              (Inl e,
               \<lparr>store = h', remote = s',
                trace = trace w @
                  [\<lparr>call = Get ''/transactions'' config, sent = hreq,
                    answer = Inl e, received = h'\<rparr>]\<rparr>))
       \<and> (api (Post ''/transactions'' data) (store w) (remote w) = (Inl e2, h2', s2') \<longrightarrow>
            createTransaction api data w =
              (Inl e2,
               \<lparr>store = h2', remote = s2',
                trace = trace w @
                  [\<lparr>call = Post ''/transactions'' data, sent = store w,
                    answer = Inl e2, received = h2'\<rparr>]\<rparr>))"
proof (intro conjI impI)
  assume c: "api (Get ''/transactions'' config) hreq (remote w) = (Inl e, h', s')"
  show "getTransactions api arg w =
              (Inl e,
               \<lparr>store = h', remote = s',
                trace = trace w @
                  [\<lparr>call = Get ''/transactions'' config, sent = hreq,
                    answer = Inl e, received = h'\<rparr>]\<rparr>)"
    by (simp add: getTransactions_eq [where api = api, OF assms c])
next
  assume c: "api (Post ''/transactions'' data) (store w) (remote w) = (Inl e2, h2', s2')"
  show "createTransaction api data w =
              (Inl e2,
               \<lparr>store = h2', remote = s2',
                trace = trace w @
                  [\<lparr>call = Post ''/transactions'' data, sent = store w,
                    answer = Inl e2, received = h2'\<rparr>]\<rparr>)"
    by (simp add: createTransaction_eq [where api = api, OF c])
qed

theorem client_failure_propagates_witness:
  "fst (getTransactions (failing_api (JStr ''timeout'')) (JRef 0) world0)
     = Inl (Thrown (JStr ''timeout''))
   \<and> length (trace (snd (getTransactions (failing_api (JStr ''timeout'')) (JRef 0) world0))) = 1
   \<and> fst (createTransaction (failing_api (JStr ''timeout'')) (JRef 1) world0)
     = Inl (Thrown (JStr ''timeout''))
   \<and> length (trace (snd (createTransaction (failing_api (JStr ''timeout'')) (JRef 1) world0))) = 1"
proof -
  let ?api = "failing_api (JStr ''timeout'')"
  let ?hreq = "snd (alloc store0 [(''params'', JRef 0)])"
  have p1: "(if JRef 0 = JUndefined then alloc (store world0) [] else (JRef 0, store world0))
              = (JRef 0, store0)"
    by (simp add: world0_def)
  have p2: "alloc store0 [(''params'', JRef 0)] = (JRef 2, ?hreq)"
    by (simp add: alloc_def store0_def)
  have g: "?api (Get ''/transactions'' (JRef 2)) ?hreq (remote world0)
             = (Inl (Thrown (JStr ''timeout'')), ?hreq, 0)"
    by (simp add: failing_api_def world0_def)
  have c: "?api (Post ''/transactions'' (JRef 1)) (store world0) (remote world0)
             = (Inl (Thrown (JStr ''timeout'')), store0, 0)"
    by (simp add: failing_api_def world0_def)
  from client_failure_propagates
         [where api = ?api and data = "JRef 1" and e = "Thrown (JStr ''timeout'')"
            and ?e2.0 = "Thrown (JStr ''timeout'')" and h' = ?hreq and s' = 0
            and h2' = store0 and s2' = 0, OF p1 p2] g c
  show ?thesis
    by (simp add: world0_def)
qed

text \<open>
  Claim C5. Whatever the client answers, a run of either service function has one effect,
  its one call: the trace grows by that exchange, and the store and the state behind the
  client are afterwards exactly what the call left. The client is handed the caller's
  store: as it is by \<open>createTransaction\<close>, and by \<open>getTransactions\<close> with the
  config object (and the default filters) added and every earlier object as it was.
\<close>

theorem service_makes_exactly_one_call:
  assumes "(if arg = JUndefined then alloc (store w) [] else (arg, store w)) = (filters, h1)"
    and "alloc h1 [(''params'', filters)] = (config, hreq)"
    and "api (Get ''/transactions'' config) hreq (remote w) = (r, h', s')"
    and "api (Post ''/transactions'' data) (store w) (remote w) = (r2, h2', s2')"
  shows "snd (getTransactions api arg w) =
           \<lparr>store = h', remote = s',
            trace = trace w @
              [\<lparr>call = Get ''/transactions'' config, sent = hreq, answer = r, received = h'\<rparr>]\<rparr>
       \<and> (\<forall>a. a < next_addr (store w) \<longrightarrow> objs hreq a = objs (store w) a)
       \<and> snd (createTransaction api data w) =
           \<lparr>store = h2', remote = s2',
            trace = trace w @
              [\<lparr>call = Post ''/transactions'' data, sent = store w, answer = r2,
                received = h2'\<rparr>]\<rparr>"
proof -
  have k: "objs hreq a = objs (store w) a" if "a < next_addr (store w)" for a
  proof -
    have "objs h1 a = objs (store w) a \<and> a < next_addr h1"
      using assms(1) that by (auto split: if_splits dest: alloc_keeps)
    then show ?thesis
      using alloc_keeps [OF assms(2)] by simp
  qed
  show ?thesis
    using k
    by (simp add: getTransactions_eq [where api = api, OF assms(1,2,3)]
        createTransaction_eq [where api = api, OF assms(4)])
qed

theorem service_makes_exactly_one_call_witness:
  "length (trace (snd (getTransactions (failing_api (JStr ''timeout'')) (JRef 0) world0))) = 1
   \<and> store (snd (getTransactions (failing_api (JStr ''timeout'')) (JRef 0) world0))
       = snd (alloc store0 [(''params'', JRef 0)])
   \<and> objs (snd (alloc store0 [(''params'', JRef 0)])) 1
       = [(''amount'', JNum 0x4029000000000000), (''category'', JStr ''food'')]
   \<and> length (trace (snd (createTransaction (failing_api (JStr ''timeout'')) (JRef 1) world0))) = 1
   \<and> store (snd (createTransaction (failing_api (JStr ''timeout'')) (JRef 1) world0)) = store0"
proof -
  let ?api = "failing_api (JStr ''timeout'')"
  let ?hreq = "snd (alloc store0 [(''params'', JRef 0)])"
  have p1: "(if JRef 0 = JUndefined then alloc (store world0) [] else (JRef 0, store world0))
              = (JRef 0, store0)"
    by (simp add: world0_def)
  have p2: "alloc store0 [(''params'', JRef 0)] = (JRef 2, ?hreq)"
    by (simp add: alloc_def store0_def)
  have g: "?api (Get ''/transactions'' (JRef 2)) ?hreq (remote world0)
             = (Inl (Thrown (JStr ''timeout'')), ?hreq, 0)"
    by (simp add: failing_api_def world0_def)
  have c: "?api (Post ''/transactions'' (JRef 1)) (store world0) (remote world0)
             = (Inl (Thrown (JStr ''timeout'')), store0, 0)"
    by (simp add: failing_api_def world0_def)
  have n: "(1::nat) < next_addr (store world0)"
    by (simp add: world0_def store0_def)
  have o: "objs (store world0) 1
             = [(''amount'', JNum 0x4029000000000000), (''category'', JStr ''food'')]"
    by (simp add: world0_def store0_def)
  from service_makes_exactly_one_call [where api = ?api, OF p1 p2 g c] n o
  show ?thesis
    by (simp add: world0_def)
qed

text \<open>
  Claim C8, amended. The service functions write to no object of the caller's. The client
  is handed the argument itself (under \<open>params\<close> for \<open>getTransactions\<close>, as the body
  for \<open>createTransaction\<close>) in a store where every object allocated before the call is
  as it was, and the store after the run is the one the client's call left. So an object
  that the client, and what runs while the call is pending, leave alone is unchanged
  after the run.
\<close>

theorem service_does_not_mutate_argument:
  assumes "a < next_addr (store w)"
  shows "(\<exists>x config. trace (snd (getTransactions api arg w)) = trace w @ [x]
             \<and> call x = Get ''/transactions'' config
             \<and> (arg \<noteq> JUndefined \<longrightarrow> params_of (sent x) config = arg)
             \<and> objs (sent x) a = objs (store w) a
             \<and> api (call x) (sent x) (remote w)
                 = (answer x, store (snd (getTransactions api arg w)),
                    remote (snd (getTransactions api arg w))))
       \<and> (\<exists>x. trace (snd (createTransaction api data w)) = trace w @ [x]
             \<and> call x = Post ''/transactions'' data
             \<and> sent x = store w
             \<and> api (call x) (sent x) (remote w)
                 = (answer x, store (snd (createTransaction api data w)),
                    remote (snd (createTransaction api data w))))
       \<and> ((\<forall>c h s. a < next_addr h \<longrightarrow> objs (fst (snd (api c h s))) a = objs h a) \<longrightarrow>
             objs (store (snd (getTransactions api arg w))) a = objs (store w) a
             \<and> objs (store (snd (createTransaction api data w))) a = objs (store w) a)"
proof -
  obtain filters h1 where p1: "(if arg = JUndefined then alloc (store w) [] else (arg, store w)) = (filters, h1)"
    by (cases "if arg = JUndefined then alloc (store w) [] else (arg, store w)")
  obtain config hreq where p2: "alloc h1 [(''params'', filters)] = (config, hreq)"
    by (cases "alloc h1 [(''params'', filters)]")
  obtain r h' s' where c: "api (Get ''/transactions'' config) hreq (remote w) = (r, h', s')"
    by (cases "api (Get ''/transactions'' config) hreq (remote w)")
  obtain r2 h2' s2' where c2: "api (Post ''/transactions'' data) (store w) (remote w) = (r2, h2', s2')"
    by (cases "api (Post ''/transactions'' data) (store w) (remote w)")
  have k1: "objs h1 a = objs (store w) a \<and> a < next_addr h1"
    using p1 assms by (auto split: if_splits dest: alloc_keeps)
  have k2: "objs hreq a = objs (store w) a \<and> a < next_addr hreq"
    using alloc_keeps [OF p2] k1 by simp
  have par: "arg \<noteq> JUndefined \<Longrightarrow> params_of hreq config = arg"
    using p1 p2 by (auto simp: alloc_def params_of_def lookup_prop_def)
  have g: "\<exists>x config. trace (snd (getTransactions api arg w)) = trace w @ [x]
             \<and> call x = Get ''/transactions'' config
             \<and> (arg \<noteq> JUndefined \<longrightarrow> params_of (sent x) config = arg)
             \<and> objs (sent x) a = objs (store w) a
             \<and> api (call x) (sent x) (remote w)
                 = (answer x, store (snd (getTransactions api arg w)),
                    remote (snd (getTransactions api arg w)))"
    using k2 par c by (simp add: getTransactions_eq [where api = api, OF p1 p2 c])
  have p: "\<exists>x. trace (snd (createTransaction api data w)) = trace w @ [x]
             \<and> call x = Post ''/transactions'' data
             \<and> sent x = store w
             \<and> api (call x) (sent x) (remote w)
                 = (answer x, store (snd (createTransaction api data w)),
                    remote (snd (createTransaction api data w)))"
    using c2 by (simp add: createTransaction_eq [where api = api, OF c2])
  have f: "objs (store (snd (getTransactions api arg w))) a = objs (store w) a
         \<and> objs (store (snd (createTransaction api data w))) a = objs (store w) a"
    if quiet: "\<forall>c h s. a < next_addr h \<longrightarrow> objs (fst (snd (api c h s))) a = objs h a"
  proof -
    have "objs (fst (snd (api (Get ''/transactions'' config) hreq (remote w)))) a = objs hreq a"
      using quiet k2 by blast
    then have g1: "objs h' a = objs (store w) a"
      using c k2 by simp
    have "objs (fst (snd (api (Post ''/transactions'' data) (store w) (remote w)))) a
            = objs (store w) a"
      using quiet assms by blast
    then have g2: "objs h2' a = objs (store w) a"
      using c2 by simp
    show ?thesis
      using g1 g2
      by (simp add: getTransactions_eq [where api = api, OF p1 p2 c]
          createTransaction_eq [where api = api, OF c2])
  qed
  from g p f show ?thesis by blast
qed

theorem service_does_not_mutate_argument_witness:
  "objs (store (snd (getTransactions (stub_api (JNum 0x4069000000000000)) (JRef 1) world0))) 1
     = [(''amount'', JNum 0x4029000000000000), (''category'', JStr ''food'')]
   \<and> objs (store (snd (createTransaction (stub_api (JNum 0x4069000000000000)) (JRef 1) world0))) 1
     = [(''amount'', JNum 0x4029000000000000), (''category'', JStr ''food'')]"
proof -
  let ?api = "stub_api (JNum 0x4069000000000000)"
  have h1: "1 < next_addr (store world0)"
    by (simp add: world0_def store0_def)
  have h2: "\<forall>c h s. 1 < next_addr h \<longrightarrow> objs (fst (snd (?api c h s))) 1 = objs h 1"
    by (auto simp: stub_api_def alloc_def split: api_call.split)
  have o: "objs (store world0) 1
             = [(''amount'', JNum 0x4029000000000000), (''category'', JStr ''food'')]"
    by (simp add: world0_def store0_def)
  from service_does_not_mutate_argument
         [where api = ?api and arg = "JRef 1" and data = "JRef 1", OF h1] h2 o
  show ?thesis
    by simp
qed

text \<open>
  Without that condition on the client the argument need not be unchanged after the run:
  the service passes it by reference, and a client that completes the \<open>params\<close> object
  or the body in place changes the caller's object.
\<close>

theorem argument_changed_by_writing_client:
  "objs (store (snd (getTransactions writing_api (JRef 0) world0))) 0 \<noteq> objs (store world0) 0
   \<and> objs (store (snd (createTransaction writing_api (JRef 1) world0))) 1 \<noteq> objs (store world0) 1"
  by (simp add: getTransactions_def createTransaction_def api_get_def api_post_def invoke_def
      alloc_def writing_api_def append_prop_def params_of_def lookup_prop_def world0_def
      store0_def)

text \<open>
  Claim C9. The result of a run is decided by the data of the response and nothing else.
  Two runs, whatever their clients, arguments and stores, whose calls settled in agreement
  on the data (the same error, the same value that is no object, or two response objects
  with the same \<open>data\<close> property, whatever their status or headers) return the same
  result; and the result for a response object is its \<open>data\<close> property.
\<close>

theorem result_depends_only_on_response_data:
  assumes "(if f1 = JUndefined then alloc (store w1) [] else (f1, store w1)) = (p1, g1)"
    and "alloc g1 [(''params'', p1)] = (c1, q1)"
    and "api1 (Get ''/transactions'' c1) q1 (remote w1) = (r1, h1, s1)"
    and "(if f2 = JUndefined then alloc (store w2) [] else (f2, store w2)) = (p2, g2)"
    and "alloc g2 [(''params'', p2)] = (c2, q2)"
    and "api2 (Get ''/transactions'' c2) q2 (remote w2) = (r2, h2, s2)"
    and "api1 (Post ''/transactions'' d1) (store w1) (remote w1) = (t1, k1, u1)"
    and "api2 (Post ''/transactions'' d2) (store w2) (remote w2) = (t2, k2, u2)"
  shows "(agree_on_data r1 h1 r2 h2 \<longrightarrow>
            fst (getTransactions api1 f1 w1) = fst (getTransactions api2 f2 w2))
       \<and> (agree_on_data t1 k1 t2 k2 \<longrightarrow>
            fst (createTransaction api1 d1 w1) = fst (createTransaction api2 d2 w2))
       \<and> (\<forall>a. r1 = Inr (JRef a) \<longrightarrow>
            fst (getTransactions api1 f1 w1) = Inr (lookup_prop (objs h1 a) ''data''))
       \<and> (\<forall>a. t1 = Inr (JRef a) \<longrightarrow>
            fst (createTransaction api1 d1 w1) = Inr (lookup_prop (objs k1 a) ''data''))"
  by (auto simp: getTransactions_eq [where api = api1, OF assms(1,2,3)]
      getTransactions_eq [where api = api2, OF assms(4,5,6)]
      createTransaction_eq [where api = api1, OF assms(7)]
      createTransaction_eq [where api = api2, OF assms(8)]
      dest: agree_on_data_read)

theorem result_depends_only_on_response_data_witness:
  "fst (getTransactions (stub_api (JNum 0x4069000000000000)) (JRef 0) world0)
     = fst (getTransactions (stub_api (JNum 0x4069200000000000)) JUndefined world0)
   \<and> fst (getTransactions (stub_api (JNum 0x4069000000000000)) (JRef 0) world0) = Inr (JStr ''[]'')
   \<and> fst (createTransaction (stub_api (JNum 0x4069000000000000)) (JRef 1) world0)
     = fst (createTransaction (stub_api (JNum 0x4069200000000000)) (JRef 1) world0)
   \<and> fst (createTransaction (stub_api (JNum 0x4069000000000000)) (JRef 1) world0) = Inr (JRef 1)
   \<and> lookup_prop
        (objs (snd (alloc store0 [(''data'', JRef 1), (''status'', JNum 0x4069000000000000)])) 2)
        ''status''
     \<noteq> lookup_prop
        (objs (snd (alloc store0 [(''data'', JRef 1), (''status'', JNum 0x4069200000000000)])) 2)
        ''status''"
proof -
  let ?a = "stub_api (JNum 0x4069000000000000)"
  let ?b = "stub_api (JNum 0x4069200000000000)"
  let ?q1 = "snd (alloc store0 [(''params'', JRef 0)])"
  let ?h1 = "snd (alloc ?q1 [(''data'', JStr ''[]''), (''status'', JNum 0x4069000000000000)])"
  let ?g2 = "snd (alloc store0 [])"
  let ?q2 = "snd (alloc ?g2 [(''params'', JRef 2)])"
  let ?h2 = "snd (alloc ?q2 [(''data'', JStr ''[]''), (''status'', JNum 0x4069200000000000)])"
  let ?k1 = "snd (alloc store0 [(''data'', JRef 1), (''status'', JNum 0x4069000000000000)])"
  let ?k2 = "snd (alloc store0 [(''data'', JRef 1), (''status'', JNum 0x4069200000000000)])"
  have a1: "(if JRef 0 = JUndefined then alloc (store world0) [] else (JRef 0, store world0))
              = (JRef 0, store0)"
    by (simp add: world0_def)
  have a2: "alloc store0 [(''params'', JRef 0)] = (JRef 2, ?q1)"
    by (simp add: alloc_def store0_def)
  have a3: "?a (Get ''/transactions'' (JRef 2)) ?q1 (remote world0) = (Inr (JRef 3), ?h1, 1)"
    by (simp add: stub_api_def alloc_def world0_def store0_def)
  have b1: "(if JUndefined = JUndefined then alloc (store world0) [] else (JUndefined, store world0))
              = (JRef 2, ?g2)"
    by (simp add: alloc_def world0_def store0_def)
  have b2: "alloc ?g2 [(''params'', JRef 2)] = (JRef 3, ?q2)"
    by (simp add: alloc_def store0_def)
  have b3: "?b (Get ''/transactions'' (JRef 3)) ?q2 (remote world0) = (Inr (JRef 4), ?h2, 1)"
    by (simp add: stub_api_def alloc_def world0_def store0_def)
  have c1: "?a (Post ''/transactions'' (JRef 1)) (store world0) (remote world0)
              = (Inr (JRef 2), ?k1, 1)"
    by (simp add: stub_api_def alloc_def world0_def store0_def)
  have c2: "?b (Post ''/transactions'' (JRef 1)) (store world0) (remote world0)
              = (Inr (JRef 2), ?k2, 1)"
    by (simp add: stub_api_def alloc_def world0_def store0_def)
  have g: "agree_on_data (Inr (JRef 3)) ?h1 (Inr (JRef 4)) ?h2"
    by (simp add: agree_on_data_def alloc_def lookup_prop_def store0_def)
  have p: "agree_on_data (Inr (JRef 2)) ?k1 (Inr (JRef 2)) ?k2"
    by (simp add: agree_on_data_def alloc_def lookup_prop_def store0_def)
  have d1: "lookup_prop (objs ?h1 3) ''data'' = JStr ''[]''"
    by (simp add: alloc_def lookup_prop_def store0_def)
  have d2: "lookup_prop (objs ?k1 2) ''data'' = JRef 1"
    by (simp add: alloc_def lookup_prop_def store0_def)
  have st: "lookup_prop (objs ?k1 2) ''status'' \<noteq> lookup_prop (objs ?k2 2) ''status''"
    by (simp add: alloc_def lookup_prop_def store0_def)
  from result_depends_only_on_response_data
         [where ?api1.0 = ?a and ?api2.0 = ?b, OF a1 a2 a3 b1 b2 b3 c1 c2] g p d1 d2 st
  show ?thesis
    by auto
qed

section \<open>Properties of the component tree\<close>

text \<open>
  Claim C6. The App root is a \<^verbatim>\<open>Router\<close> around the layout: one \<^verbatim>\<open>Navbar\<close>, outside
  \<^verbatim>\<open>Routes\<close> and so rendered at every location, and exactly three routes, \<^verbatim>\<open>/\<close> to
  Home, \<^verbatim>\<open>/transactions\<close> to Transactions and \<^verbatim>\<open>/categories\<close> to Categories.
\<close>

theorem App_composes_navbar_and_three_routes:
  "tag_of App = Some (Comp ''Router'')
   \<and> filter (\<lambda>e. tag_of e = Some (Comp ''Navbar'')) (always_rendered App)
       = [Elem (Comp ''Navbar'') [] []]
   \<and> length (filter (\<lambda>e. tag_of e = Some (Comp ''Route'')) (elements App)) = 3
   \<and> routes App = [(''/'', Comp ''Home''), (''/transactions'', Comp ''Transactions''),
                    (''/categories'', Comp ''Categories'')]"
  by (simp add: App_def routes_def List.map_filter_def)

text \<open>
  Claim C10. The links of the Navbar point at \<^verbatim>\<open>/\<close>, \<^verbatim>\<open>/transactions\<close> and
  \<^verbatim>\<open>/categories\<close>; they are the links of the rendered App, and each of them is the
  path of a route that App declares.
\<close>

theorem nav_targets_are_routed:
  "nav_targets Navbar = [''/'', ''/transactions'', ''/categories'']
   \<and> nav_targets (mount App) = nav_targets Navbar
   \<and> set (nav_targets (mount App)) \<subseteq> set (map fst (routes App))"
proof -
  have n: "nav_targets Navbar = [''/'', ''/transactions'', ''/categories'']"
    by (simp add: Navbar_def nav_targets_def List.map_filter_def)
  have m: "mount App =
     Elem (Comp ''Router'') []
       [Elem (Host ''div'') [(''className'', PStr ''min-h-screen bg-gray-50'')]
          [Navbar,
           Elem (Host ''div'') [(''className'', PStr ''p-6'')]
             [Elem (Comp ''Routes'') []
                [Elem (Comp ''Route'')
                   [(''path'', PStr ''/''), (''element'', PElem (Elem (Comp ''Home'') [] []))] [],
                 Elem (Comp ''Route'')
                   [(''path'', PStr ''/transactions''),
                    (''element'', PElem (Elem (Comp ''Transactions'') [] []))] [],
                 Elem (Comp ''Route'')
                   [(''path'', PStr ''/categories''),
                    (''element'', PElem (Elem (Comp ''Categories'') [] []))] []]]]]"
    by (simp add: App_def)
  have e: "nav_targets (mount App) = nav_targets Navbar"
    unfolding m by (simp add: nav_targets_def List.map_filter_def)
  have r: "map fst (routes App) = [''/'', ''/transactions'', ''/categories'']"
    by (simp add: App_def routes_def List.map_filter_def)
  show ?thesis
    by (simp add: n e r)
qed

end
